theory Spec2Isabelle
  imports Complex_Main "HOL-Library.Word"
begin

section \<open>Strings\<close>

text \<open>
  A JavaScript string is modelled as a \<^typ>\<open>string\<close>: a list of 8-bit characters,
  read as the code units \<open>0x00\<close> .. \<open>0xFF\<close>. The character classes of the regular
  expressions of the plugin are written out on that range.
\<close>

definition is_space :: "char \<Rightarrow> bool" where
  \<comment> \<open>the class \<open>\s\<close>, which is also what \<open>String.prototype.trim\<close> strips\<close>
  "is_space c = (c \<in> set [CHR 0x09, CHR 0x0A, CHR 0x0B, CHR 0x0C, CHR 0x0D, CHR 0x20, CHR 0xA0])"

definition is_digit :: "char \<Rightarrow> bool" where
  \<comment> \<open>the class \<open>\d\<close>\<close>
  "is_digit c = (c \<in> set ''0123456789'')"

definition is_word :: "char \<Rightarrow> bool" where
  \<comment> \<open>the class \<open>\w\<close>\<close>
  "is_word c = (c \<in> set ''abcdefghijklmnopqrstuvwxyzABCDEFGHIJKLMNOPQRSTUVWXYZ0123456789_'')"

definition upper_chars :: string where
  "upper_chars = ''ABCDEFGHIJKLMNOPQRSTUVWXYZ'' @
     [CHR 0xC0, CHR 0xC1, CHR 0xC2, CHR 0xC3, CHR 0xC4, CHR 0xC5, CHR 0xC6, CHR 0xC7,
      CHR 0xC8, CHR 0xC9, CHR 0xCA, CHR 0xCB, CHR 0xCC, CHR 0xCD, CHR 0xCE, CHR 0xCF,
      CHR 0xD0, CHR 0xD1, CHR 0xD2, CHR 0xD3, CHR 0xD4, CHR 0xD5, CHR 0xD6,
      CHR 0xD8, CHR 0xD9, CHR 0xDA, CHR 0xDB, CHR 0xDC, CHR 0xDD, CHR 0xDE]"

definition lower_chars :: string where
  "lower_chars = ''abcdefghijklmnopqrstuvwxyz'' @
     [CHR 0xE0, CHR 0xE1, CHR 0xE2, CHR 0xE3, CHR 0xE4, CHR 0xE5, CHR 0xE6, CHR 0xE7,
      CHR 0xE8, CHR 0xE9, CHR 0xEA, CHR 0xEB, CHR 0xEC, CHR 0xED, CHR 0xEE, CHR 0xEF,
      CHR 0xF0, CHR 0xF1, CHR 0xF2, CHR 0xF3, CHR 0xF4, CHR 0xF5, CHR 0xF6,
      CHR 0xF8, CHR 0xF9, CHR 0xFA, CHR 0xFB, CHR 0xFC, CHR 0xFD, CHR 0xFE]"

definition to_lower :: "char \<Rightarrow> char" where
  "to_lower c = (case map_of (zip upper_chars lower_chars) c of Some l \<Rightarrow> l | None \<Rightarrow> c)"

definition to_upper_ascii :: "char \<Rightarrow> char" where
  \<comment> \<open>\<open>toUpperCase\<close>, used by the plugin on one ASCII letter only\<close>
  "to_upper_ascii c =
     (case map_of (zip (take 26 lower_chars) (take 26 upper_chars)) c of Some u \<Rightarrow> u | None \<Rightarrow> c)"

definition toLowerCase :: "string \<Rightarrow> string" where
  "toLowerCase s = map to_lower s"

definition trim :: "string \<Rightarrow> string" where
  "trim s = rev (dropWhile is_space (rev (dropWhile is_space s)))"

definition startsWith :: "string \<Rightarrow> string \<Rightarrow> bool" where
  "startsWith s p = (take (length p) s = p)"

fun includes_str :: "string \<Rightarrow> string \<Rightarrow> bool" where
  "includes_str [] p = (p = [])"
| "includes_str (c # cs) p = (startsWith (c # cs) p \<or> includes_str cs p)"

fun indexOf :: "string \<Rightarrow> string \<Rightarrow> nat option" where
  \<comment> \<open>\<open>None\<close> stands for the result \<open>-1\<close>\<close>
  "indexOf [] p = (if p = [] then Some 0 else None)"
| "indexOf (c # cs) p =
     (if startsWith (c # cs) p then Some 0 else map_option Suc (indexOf cs p))"

fun split_on :: "char \<Rightarrow> string \<Rightarrow> string list" where
  \<comment> \<open>\<open>s.split(d)\<close> for a one-character separator: never empty\<close>
  "split_on d [] = [[]]"
| "split_on d (c # cs) =
     (if c = d then [] # split_on d cs
      else (case split_on d cs of [] \<Rightarrow> [[c]] | l # ls \<Rightarrow> (c # l) # ls))"

fun join :: "string \<Rightarrow> string list \<Rightarrow> string" where
  "join d [] = []"
| "join d [l] = l"
| "join d (l # ls) = l @ d @ join d ls"

definition newline :: char where
  "newline = CHR 0x0A"

definition split_lines :: "string \<Rightarrow> string list" where
  \<comment> \<open>\<open>content.split('\n')\<close>\<close>
  "split_lines content = split_on newline content"

fun replace_first :: "string \<Rightarrow> string \<Rightarrow> string \<Rightarrow> string" where
  \<comment> \<open>\<open>s.replace(p, r)\<close> for a string pattern: the first occurrence only\<close>
  "replace_first [] p r = (if p = [] then r else [])"
| "replace_first (c # cs) p r =
     (if startsWith (c # cs) p then r @ drop (length p) (c # cs)
      else c # replace_first cs p r)"

definition digit36 :: "nat \<Rightarrow> char" where
  "digit36 n = ''0123456789abcdefghijklmnopqrstuvwxyz'' ! (n mod 36)"

function to_base :: "nat \<Rightarrow> nat \<Rightarrow> string" where
  \<comment> \<open>\<open>n.toString(b)\<close> for a natural number, \<open>2 \<le> b \<le> 36\<close>\<close>
  "to_base b n = (if n < b \<or> b < 2 then [digit36 n] else to_base b (n div b) @ [digit36 (n mod b)])"
  by pat_completeness auto
termination
  by (relation "measure snd") auto

declare to_base.simps [simp del]

definition show_nat :: "nat \<Rightarrow> string" where
  \<comment> \<open>a natural number inside a template literal\<close>
  "show_nat n = to_base 10 n"

section \<open>Constants\<close>

datatype TaskPriority = A | B | C | D

datatype TodoItemStatus = Todo | Done

record TimeAllocationRatio =
  hoursBlock :: int
  tasksInBlock :: int
  timePerTask :: int

fun PRIORITY_TIME_RATIOS :: "TaskPriority \<Rightarrow> TimeAllocationRatio" where
  "PRIORITY_TIME_RATIOS A = \<lparr>hoursBlock = 1, tasksInBlock = 2, timePerTask = 30\<rparr>"
| "PRIORITY_TIME_RATIOS B = \<lparr>hoursBlock = 2, tasksInBlock = 4, timePerTask = 30\<rparr>"
| "PRIORITY_TIME_RATIOS C = \<lparr>hoursBlock = 1, tasksInBlock = 6, timePerTask = 10\<rparr>"
| "PRIORITY_TIME_RATIOS D = \<lparr>hoursBlock = 1, tasksInBlock = 1, timePerTask = 60\<rparr>"

record AutoPriorityThresholds =
  PRIORITY_A :: nat
  PRIORITY_B :: nat
  PRIORITY_C :: nat
  PRIORITY_D :: nat

definition AUTO_PRIORITY_THRESHOLDS :: AutoPriorityThresholds where
  "AUTO_PRIORITY_THRESHOLDS = \<lparr>PRIORITY_A = 6, PRIORITY_B = 4, PRIORITY_C = 2, PRIORITY_D = 0\<rparr>"

definition priority_name :: "TaskPriority \<Rightarrow> string" where
  \<comment> \<open>the string value of the enum member\<close>
  "priority_name p = (case p of A \<Rightarrow> ''A'' | B \<Rightarrow> ''B'' | C \<Rightarrow> ''C'' | D \<Rightarrow> ''D'')"

definition tier_rank :: "TaskPriority \<Rightarrow> nat" where
  \<comment> \<open>the tier ordering \<open>D < C < B < A\<close>\<close>
  "tier_rank p = (case p of D \<Rightarrow> 0 | C \<Rightarrow> 1 | B \<Rightarrow> 2 | A \<Rightarrow> 3)"

section \<open>Regular expressions of the plugin\<close>

text \<open>
  Each regular expression of the source is written as a function on the string it is
  matched against. A greedy \<open>\s*\<close> or \<open>\s+\<close> followed by a character that is not white
  space takes all the white space there is, which is what \<^const>\<open>dropWhile\<close> does.
\<close>

fun first_match :: "(string \<Rightarrow> 'a option) \<Rightarrow> string \<Rightarrow> 'a option" where
  \<comment> \<open>an unanchored pattern: the match at the leftmost position that has one\<close>
  "first_match m [] = m []"
| "first_match m (c # cs) = (case m (c # cs) of Some r \<Rightarrow> Some r | None \<Rightarrow> first_match m cs)"

definition checkbox_at :: "string \<Rightarrow> bool" where
  \<comment> \<open>\<open>\[[ x]\]\<close> at the start of the string\<close>
  "checkbox_at r =
     (case r of
        c1 # c2 # c3 # _ \<Rightarrow> c1 = CHR ''['' \<and> (c2 = CHR '' '' \<or> c2 = CHR ''x'') \<and> c3 = CHR '']''
      | _ \<Rightarrow> False)"

definition bullet_checkbox_at :: "string \<Rightarrow> bool" where
  \<comment> \<open>\<open>[-*]\s+\[[ x]\]\<close> at the start of the string\<close>
  "bullet_checkbox_at r =
     (case r of
        [] \<Rightarrow> False
      | b # r' \<Rightarrow>
          (b = CHR ''-'' \<or> b = CHR ''*'')
          \<and> (case r' of [] \<Rightarrow> False | s # _ \<Rightarrow> is_space s)
          \<and> checkbox_at (dropWhile is_space r'))"

definition strip_checkbox_prefix :: "string \<Rightarrow> string" where
  \<comment> \<open>\<open>s.replace(/^\s*[-*]\s*\[[x ]\]\s*/i, '')\<close>\<close>
  "strip_checkbox_prefix s =
     (case dropWhile is_space s of
        [] \<Rightarrow> s
      | b # r \<Rightarrow>
          if b = CHR ''-'' \<or> b = CHR ''*'' then
            (case dropWhile is_space r of
               c1 # c2 # c3 # r' \<Rightarrow>
                 if c1 = CHR ''['' \<and> (c2 = CHR ''x'' \<or> c2 = CHR ''X'' \<or> c2 = CHR '' '')
                    \<and> c3 = CHR '']''
                 then dropWhile is_space r' else s
             | _ \<Rightarrow> s)
          else s)"

definition is_tag_char :: "char \<Rightarrow> bool" where
  \<comment> \<open>the class \<open>[\w\/\-]\<close>\<close>
  "is_tag_char c = (is_word c \<or> c = CHR ''/'' \<or> c = CHR ''-'')"

definition shape :: "string \<Rightarrow> string \<Rightarrow> bool" where
  \<comment> \<open>the whole string has the given shape, in which \<open>d\<close> stands for \<open>\d\<close>\<close>
  "shape p s = list_all2 (\<lambda>q c. if q = CHR ''d'' then is_digit c else c = q) p s"

definition next_is_word :: "string \<Rightarrow> bool" where
  "next_is_word s = (case s of [] \<Rightarrow> False | w # _ \<Rightarrow> is_word w)"

definition priority_letter :: "char \<Rightarrow> bool" where
  \<comment> \<open>the class \<open>[ABCD]\<close> under the flag \<open>i\<close>\<close>
  "priority_letter c = (to_lower c \<in> set ''abcd'')"

definition priorityTagAt :: "string \<Rightarrow> char option" where
  \<comment> \<open>\<open>#priority\/([ABCD])\<close> under the flag \<open>i\<close>, at the start of the string: group 1\<close>
  "priorityTagAt s =
     (if toLowerCase (take 10 s) = ''#priority/'' then
        (case drop 10 s of [] \<Rightarrow> None | l # _ \<Rightarrow> if priority_letter l then Some l else None)
      else None)"

definition simplePriorityAt :: "string \<Rightarrow> char option" where
  \<comment> \<open>\<open>#([ABCD])(?!\w)\<close> under the flag \<open>i\<close>, at the start of the string: group 1\<close>
  "simplePriorityAt s =
     (case s of
        h # l # r \<Rightarrow>
          if h = CHR ''#'' \<and> priority_letter l \<and> \<not> next_is_word r then Some l else None
      | _ \<Rightarrow> None)"

fun standaloneDate :: "bool \<Rightarrow> string \<Rightarrow> string option" where
  \<comment> \<open>\<open>\b(\d{4}-\d{2}-\d{2})\b\<close>, leftmost; the flag says that a word character precedes\<close>
  "standaloneDate prev [] = None"
| "standaloneDate prev (c # cs) =
     (if \<not> prev \<and> shape ''dddd-dd-dd'' (take 10 (c # cs)) \<and> \<not> next_is_word (drop 10 (c # cs))
      then Some (take 10 (c # cs))
      else standaloneDate (is_word c) cs)"

section \<open>The data model\<close>

text \<open>
  The fields of the source's interfaces and of the class \<open>EnhancedTodoItem\<close>, in the
  order of the source. Field names shared by two interfaces carry a prefix, and
  \<open>id\<close> and \<open>length\<close> a suffix. The type \<open>'d\<close> is the \<open>DateTime\<close> of the date
  library.
\<close>

record SubTask =
  st_id :: string
  st_title :: string
  st_isCompleted :: bool
  st_parentTaskId :: string
  complexity :: int

record 'd RescheduleEvent =
  re_date :: 'd
  re_reason :: string
  fromDate :: 'd
  toDate :: 'd

datatype IssueType = TOO_COMPLEX | INCONSISTENT_COMPLEXITY | TIME_MISMATCH

datatype IssueSeverity = LOW | MEDIUM | HIGH

datatype RecommendedAction = required | suggested | none

record TaskSuitabilityIssue =
  issue_type :: IssueType
  severity :: IssueSeverity
  message :: string
  suggestion :: string

record TaskSuitabilityResult =
  isProblematic :: bool
  issues :: "TaskSuitabilityIssue list"
  recommendedAction :: RecommendedAction

datatype DayEndStatus = completed | forgotten | rescheduled

record 'd EnhancedTodoItem =
  id_todo :: string
  title :: string
  description :: string
  priority :: TaskPriority
  subtasks :: "SubTask list"
  subtaskCount :: nat
  isAutoPriority :: bool
  allocatedTime :: int
  remainingTime :: int
  estimatedTime :: int
  assignedDate :: "'d option"
  originalAssignedDate :: "'d option"
  rescheduleCount :: nat
  rescheduleHistory :: "'d RescheduleEvent list"
  isAssignedToday :: bool
  needsRescheduleWarning :: bool
  parentTaskId :: "string option"
  childTaskIds :: "string list"
  tags :: "string list"
  status :: TodoItemStatus
  isCompleted :: bool
  completedDate :: "'d option"
  createdDate :: 'd
  sourceFilePath :: string
  lineNumber :: nat
  startIndex :: int
  length_todo :: nat
  dayEndStatus :: "DayEndStatus option"
  suitabilityAnalysis :: "TaskSuitabilityResult option"
  lastAnalyzedDate :: "'d option"

definition calculateAllocatedTime :: "TaskPriority \<Rightarrow> int" where
  "calculateAllocatedTime p = (case p of A \<Rightarrow> 30 | B \<Rightarrow> 30 | C \<Rightarrow> 10 | D \<Rightarrow> 60)"

definition new_EnhancedTodoItem ::
  "'d \<Rightarrow> string \<Rightarrow> string \<Rightarrow> string \<Rightarrow> TaskPriority \<Rightarrow> string \<Rightarrow> nat \<Rightarrow> int \<Rightarrow> nat
     \<Rightarrow> TodoItemStatus \<Rightarrow> SubTask list \<Rightarrow> bool \<Rightarrow> 'd EnhancedTodoItem" where
  \<comment> \<open>the constructor; the first argument is what \<open>DateTime.now()\<close> returns in it\<close>
  "new_EnhancedTodoItem now ident ttl descr prio path line start len stat subs auto =
     \<lparr>id_todo = ident, title = ttl, description = descr, priority = prio,
      subtasks = subs, subtaskCount = length subs, isAutoPriority = auto,
      allocatedTime = calculateAllocatedTime prio,
      remainingTime = calculateAllocatedTime prio,
      estimatedTime = calculateAllocatedTime prio,
      assignedDate = None, originalAssignedDate = None,
      rescheduleCount = 0, rescheduleHistory = [],
      isAssignedToday = False, needsRescheduleWarning = False,
      parentTaskId = None, childTaskIds = [], tags = [],
      status = stat, isCompleted = (stat = Done), completedDate = None,
      createdDate = now, sourceFilePath = path, lineNumber = line,
      startIndex = start, length_todo = len,
      dayEndStatus = None, suitabilityAnalysis = None, lastAnalyzedDate = None\<rparr>"

definition updatePriority :: "'d EnhancedTodoItem \<Rightarrow> TaskPriority \<Rightarrow> bool \<Rightarrow> 'd EnhancedTodoItem" where
  "updatePriority this newPriority isManual =
     this\<lparr>priority := newPriority, isAutoPriority := \<not> isManual,
          allocatedTime := calculateAllocatedTime newPriority,
          remainingTime := calculateAllocatedTime newPriority\<rparr>"

fun findIndex :: "('a \<Rightarrow> bool) \<Rightarrow> 'a list \<Rightarrow> nat option" where
  \<comment> \<open>\<open>None\<close> stands for the result \<open>-1\<close>\<close>
  "findIndex P [] = None"
| "findIndex P (x # xs) = (if P x then Some 0 else map_option Suc (findIndex P xs))"

definition removeSubtask :: "'d EnhancedTodoItem \<Rightarrow> string \<Rightarrow> bool \<times> 'd EnhancedTodoItem" where
  \<comment> \<open>the returned flag, and the record after the call\<close>
  "removeSubtask this subtaskId =
     (case findIndex (\<lambda>st. st_id st = subtaskId) (subtasks this) of
        Some index \<Rightarrow>
          (let spliced = take index (subtasks this) @ drop (index + 1) (subtasks this)
           in (True, this\<lparr>subtasks := spliced, subtaskCount := length spliced\<rparr>))
      | None \<Rightarrow> (False, this))"

section \<open>AutoPriorityAssigner\<close>

definition assignPriorityBySubtaskCount :: "nat \<Rightarrow> TaskPriority" where
  "assignPriorityBySubtaskCount n =
     (if n \<ge> PRIORITY_A AUTO_PRIORITY_THRESHOLDS then A
      else if n \<ge> PRIORITY_B AUTO_PRIORITY_THRESHOLDS then B
      else if n \<ge> PRIORITY_C AUTO_PRIORITY_THRESHOLDS then C
      else D)"

definition isSubtaskLine :: "string \<Rightarrow> bool" where
  \<comment> \<open>\<open>line.match(/^\s+[-*]\s+\[[ x]\]/)\<close>\<close>
  "isSubtaskLine line =
     ((case line of [] \<Rightarrow> False | c # _ \<Rightarrow> is_space c) \<and> bullet_checkbox_at (dropWhile is_space line))"

definition isBlankLine :: "string \<Rightarrow> bool" where
  \<comment> \<open>\<open>line.trim() === '' || line.match(/^\s*$/)\<close>\<close>
  "isBlankLine line = (trim line = [] \<or> list_all is_space line)"

function parseSubtasks_loop :: "string list \<Rightarrow> nat \<Rightarrow> string list \<Rightarrow> string list" where
  "parseSubtasks_loop lines currentLine found =
     (if currentLine < length lines then
        (let line = lines ! currentLine in
         if isSubtaskLine line then
           parseSubtasks_loop lines (currentLine + 1) (found @ [trim line])
         else if isBlankLine line then
           parseSubtasks_loop lines (currentLine + 1) found
         else found)
      else found)"
  by pat_completeness auto
termination
  by (relation "measure (\<lambda>(lines, currentLine, found). length lines - currentLine)") auto

declare parseSubtasks_loop.simps [simp del]

definition parseSubtasks :: "string \<Rightarrow> nat \<Rightarrow> string list" where
  "parseSubtasks content startLine = parseSubtasks_loop (split_lines content) (startLine + 1) []"

definition calculateSubtaskComplexity :: "string \<Rightarrow> int" where
  "calculateSubtaskComplexity subtaskTitle =
     (let t = toLowerCase subtaskTitle in
      if list_ex (startsWith t)
           [''check'', ''verify'', ''confirm'', ''send'', ''email'', ''call'', ''read'']
      then 1
      else
        (let c0 = (1::int);
             c1 = (if list_ex (includes_str t)
                        [''update'', ''fix'', ''edit'', ''write'', ''create'', ''add'', ''remove'']
                   then c0 + 1 else c0);
             c2 = (if list_ex (includes_str t)
                        [''design'', ''implement'', ''develop'', ''analyze'', ''research'', ''build'']
                   then c1 + 2 else c1);
             c3 = (if list_ex (includes_str t)
                        [''architect'', ''optimize'', ''refactor'', ''integrate'', ''deploy'']
                   then c2 + 3 else c2);
             c4 = (if includes_str t ''multiple'' \<or> includes_str t ''various''
                      \<or> includes_str t ''several''
                   then c3 + 1 else c3);
             c5 = (if includes_str t ''complex'' \<or> includes_str t ''advanced''
                      \<or> includes_str t ''comprehensive''
                   then c4 + 1 else c4)
         in min c5 5))"

definition parseSubtasksWithComplexity :: "string \<Rightarrow> nat \<Rightarrow> SubTask list" where
  "parseSubtasksWithComplexity content startLine =
     map (\<lambda>(index, line).
            \<lparr>st_id = ''subtask_'' @ show_nat startLine @ ''_'' @ show_nat index,
             st_title = trim (strip_checkbox_prefix line),
             st_isCompleted = (includes_str line ''[x]'' \<or> includes_str line ''[X]''),
             st_parentTaskId = [],
             complexity = calculateSubtaskComplexity line\<rparr>)
         (enumerate 0 (parseSubtasks content startLine))"

section \<open>EnhancedTodoParser\<close>

text \<open>
  What the parser takes from outside the repository is a parameter of the model: the
  regular expression engine on the pattern built from the configured date tag
  template, the date library, and the system clock. The clock is read several times
  during one parse; a counter of the readings is threaded through the parser, and
  \<open>clock h k\<close> is what the reading number \<open>k\<close> returns, in milliseconds.
\<close>

datatype jserror = SyntaxError | TypeError

datatype match_result = NoMatch | Match "string option"

record 'd Host =
  regexpMatch :: "string \<Rightarrow> string \<Rightarrow> jserror + match_result"
    \<comment> \<open>\<open>content.match(new RegExp(pattern))\<close>: \<open>SyntaxError\<close> for a pattern that does not
        compile, else no match or the first capture group of the leftmost match\<close>
  fromISO :: "string \<Rightarrow> 'd option"
    \<comment> \<open>\<open>DateTime.fromISO\<close>, \<open>None\<close> when the result is not valid\<close>
  startOfDay :: "'d \<Rightarrow> 'd"
  hasSameDay :: "'d \<Rightarrow> 'd \<Rightarrow> bool"
  ofMillis :: "nat \<Rightarrow> 'd"
  clock :: "nat \<Rightarrow> nat"

record ParserConfig =
  dateTagFormat :: string
  dateFormat :: string

definition default_config :: ParserConfig where
  \<comment> \<open>the default arguments of the parser's constructor\<close>
  "default_config = \<lparr>dateTagFormat = ''#%date%'', dateFormat = ''yyyy-MM-dd''\<rparr>"

record ParsedTodoData =
  pd_title :: string
  pd_description :: string
  pd_status :: TodoItemStatus
  pd_tags :: "string list"
  pd_startIndex :: int
  pd_length :: nat

definition isTodoLine :: "string \<Rightarrow> bool" where
  \<comment> \<open>\<open>/^\s*[-*]\s+\[[ x]\]/.test(line)\<close>\<close>
  "isTodoLine line = bullet_checkbox_at (dropWhile is_space line)"

function extractTags :: "string \<Rightarrow> string list" where
  \<comment> \<open>\<open>content.match(/#[\w\/\-]+/g) || []\<close>\<close>
  "extractTags [] = []"
| "extractTags (c # cs) =
     (if c = CHR ''#'' \<and> takeWhile is_tag_char cs \<noteq> []
      then (c # takeWhile is_tag_char cs) # extractTags (dropWhile is_tag_char cs)
      else extractTags cs)"
  by pat_completeness auto
termination
  by (relation "measure length") (auto simp: length_dropWhile_le le_imp_less_Suc)

function removeTags :: "string \<Rightarrow> string" where
  \<comment> \<open>\<open>content.replace(/#[\w\/\-]+/g, '')\<close>\<close>
  "removeTags [] = []"
| "removeTags (c # cs) =
     (if c = CHR ''#'' \<and> takeWhile is_tag_char cs \<noteq> []
      then removeTags (dropWhile is_tag_char cs)
      else c # removeTags cs)"
  by pat_completeness auto
termination
  by (relation "measure length") (auto simp: length_dropWhile_le le_imp_less_Suc)

definition parseBasicTodoData :: "string \<Rightarrow> nat \<Rightarrow> ParsedTodoData" where
  "parseBasicTodoData line lineNo =
     (let trimmedLine = trim line;
          start = (case indexOf line trimmedLine of None \<Rightarrow> - 1 | Some n \<Rightarrow> int n);
          done = (includes_str trimmedLine ''[x]'' \<or> includes_str trimmedLine ''[X]'');
          content = strip_checkbox_prefix trimmedLine;
          cleanContent = trim (removeTags content);
          parts = split_lines cleanContent
      in \<lparr>pd_title = trim (hd parts),
          pd_description = trim (join [newline] (tl parts)),
          pd_status = (if done then Done else Todo),
          pd_tags = extractTags content,
          pd_startIndex = start,
          pd_length = length line\<rparr>)"

definition priority_of_letter :: "char \<Rightarrow> TaskPriority option" where
  \<comment> \<open>\<open>match[1].toUpperCase() as TaskPriority\<close>\<close>
  "priority_of_letter l =
     map_of [(CHR ''A'', A), (CHR ''B'', B), (CHR ''C'', C), (CHR ''D'', D)] (to_upper_ascii l)"

definition extractManualPriority :: "string \<Rightarrow> TaskPriority option" where
  "extractManualPriority line =
     (case first_match priorityTagAt line of
        Some l \<Rightarrow> priority_of_letter l
      | None \<Rightarrow>
          (case first_match simplePriorityAt line of
             Some l \<Rightarrow> priority_of_letter l
           | None \<Rightarrow> None))"

definition date_group :: string where
  \<comment> \<open>the string \<open>([\d\-\/]+)\<close>\<close>
  "date_group = ''(['' @ [CHR 0x5C] @ ''d'' @ [CHR 0x5C] @ ''-'' @ [CHR 0x5C] @ ''/]+)''"

definition extractDueDate :: "'d Host \<Rightarrow> ParserConfig \<Rightarrow> string \<Rightarrow> jserror + 'd option" where
  "extractDueDate h cfg content =
     (let dateTagPattern = replace_first (dateTagFormat cfg) ''%date%'' date_group in
      case regexpMatch h dateTagPattern content of
        Inl e \<Rightarrow> Inl e
      | Inr dateMatch \<Rightarrow>
          (case (case dateMatch of Match (Some dateStr) \<Rightarrow> fromISO h dateStr | _ \<Rightarrow> None) of
             Some luxonDate \<Rightarrow> Inr (Some luxonDate)
           | None \<Rightarrow>
               (case standaloneDate False content of
                  Some dateStr \<Rightarrow> Inr (fromISO h dateStr)
                | None \<Rightarrow> Inr None)))"

definition noteName :: "string \<Rightarrow> string" where
  \<comment> \<open>\<open>filePath.split('/').pop()?.replace('.md', '') || ''\<close>\<close>
  "noteName filePath = replace_first (last (split_on (CHR ''/'') filePath)) ''.md'' []"

definition isDailyNote :: "string \<Rightarrow> bool" where
  "isDailyNote filePath =
     (shape ''dddd-dd-dd'' (noteName filePath) \<or> shape ''dd-dd-dddd'' (noteName filePath)
      \<or> shape ''dddddddd'' (noteName filePath))"

definition extractDateFromDailyNote :: "string \<Rightarrow> string option" where
  "extractDateFromDailyNote filePath =
     (let filename = noteName filePath in
      if shape ''dddd-dd-dd'' filename then Some filename
      else if shape ''dd-dd-dddd'' filename then
        (let parts = split_on (CHR ''-'') filename
         in Some (parts ! 2 @ ''-'' @ parts ! 0 @ ''-'' @ parts ! 1))
      else if shape ''dddddddd'' filename then
        Some (take 4 filename @ ''-'' @ take 2 (drop 4 filename) @ ''-'' @ take 2 (drop 6 filename))
      else None)"

definition simpleHash :: "string \<Rightarrow> string" where
  \<comment> \<open>the hash is kept in 32 bits by \<open>hash & hash\<close>\<close>
  "simpleHash str =
     to_base 36 (nat \<bar>sint (foldl (\<lambda>hash c. push_bit 5 hash - hash + of_nat (of_char c))
                                (0 :: 32 word) str)\<bar>)"

definition generateTodoId :: "string \<Rightarrow> nat \<Rightarrow> nat \<Rightarrow> string" where
  \<comment> \<open>the last argument is what \<open>Date.now()\<close> returns\<close>
  "generateTodoId filePath lineNo now =
     ''todo_'' @ simpleHash filePath @ ''_'' @ show_nat lineNo @ ''_'' @ show_nat now"

definition assignToDate :: "'d Host \<Rightarrow> 'd \<Rightarrow> 'd EnhancedTodoItem \<Rightarrow> 'd \<Rightarrow> 'd EnhancedTodoItem" where
  \<comment> \<open>the second argument is what \<open>DateTime.now()\<close> returns in it\<close>
  "assignToDate h now this date =
     this\<lparr>assignedDate := Some (startOfDay h date),
          isAssignedToday := hasSameDay h date now,
          originalAssignedDate :=
            (case originalAssignedDate this of
               None \<Rightarrow> Some (startOfDay h date)
             | Some d \<Rightarrow> Some d)\<rparr>"

definition buildTodoItem :: "'d \<Rightarrow> nat \<Rightarrow> string \<Rightarrow> string \<Rightarrow> nat \<Rightarrow> string \<Rightarrow> 'd EnhancedTodoItem" where
  \<comment> \<open>the part of \<open>parseEnhancedTodoLine\<close> before the due date is looked at; the first two
      arguments are what \<open>DateTime.now()\<close> (in the constructor) and \<open>Date.now()\<close> (in
      \<open>generateTodoId\<close>) return\<close>
  "buildTodoItem now nowMillis line filePath lineNo fileContent =
     (let basicData = parseBasicTodoData line lineNo;
          subs = parseSubtasksWithComplexity fileContent lineNo;
          autoPriority = assignPriorityBySubtaskCount (length subs);
          manualPriority = extractManualPriority line;
          finalPriority = (case manualPriority of Some p \<Rightarrow> p | None \<Rightarrow> autoPriority);
          ident = generateTodoId filePath lineNo nowMillis;
          todo = new_EnhancedTodoItem now ident
                   (pd_title basicData) (pd_description basicData) finalPriority
                   filePath lineNo (pd_startIndex basicData) (pd_length basicData)
                   (pd_status basicData) subs (manualPriority = None)
      in todo\<lparr>subtasks := map (\<lambda>st. st\<lparr>st_parentTaskId := ident\<rparr>) (subtasks todo),
              tags := pd_tags basicData\<rparr>)"

definition parseEnhancedTodoLine ::
  "'d Host \<Rightarrow> ParserConfig \<Rightarrow> string \<Rightarrow> string \<Rightarrow> nat \<Rightarrow> string \<Rightarrow> nat
     \<Rightarrow> jserror + ('d EnhancedTodoItem option \<times> nat)" where
  \<comment> \<open>the last argument counts the readings of the clock so far; so does the result\<close>
  "parseEnhancedTodoLine h cfg line filePath lineNo fileContent k =
     (if \<not> isTodoLine line then Inr (None, k)
      else
        (let todo = buildTodoItem (ofMillis h (clock h (k + 1))) (clock h k)
                      line filePath lineNo fileContent
         in case extractDueDate h cfg line of
              Inl e \<Rightarrow> Inl e
            | Inr (Some dueDate) \<Rightarrow>
                Inr (Some (assignToDate h (ofMillis h (clock h (k + 2))) todo dueDate), k + 3)
            | Inr None \<Rightarrow>
                if isDailyNote filePath then
                  (case extractDateFromDailyNote filePath of
                     Some dailyNoteDate \<Rightarrow> Inl TypeError
                   | None \<Rightarrow> Inr (Some todo, k + 2))
                else Inr (Some todo, k + 2)))"

function parseTodos_loop ::
  "'d Host \<Rightarrow> ParserConfig \<Rightarrow> string \<Rightarrow> string \<Rightarrow> string list \<Rightarrow> nat \<Rightarrow> nat
     \<Rightarrow> 'd EnhancedTodoItem list \<Rightarrow> jserror + ('d EnhancedTodoItem list \<times> nat)" where
  "parseTodos_loop h cfg filePath content lines i k todos =
     (if i < length lines then
        (if isTodoLine (lines ! i) then
           (case parseEnhancedTodoLine h cfg (lines ! i) filePath i content k of
              Inl e \<Rightarrow> Inl e
            | Inr (Some todo, k') \<Rightarrow>
                parseTodos_loop h cfg filePath content lines (i + 1) k' (todos @ [todo])
            | Inr (None, k') \<Rightarrow>
                parseTodos_loop h cfg filePath content lines (i + 1) k' todos)
         else parseTodos_loop h cfg filePath content lines (i + 1) k todos)
      else Inr (todos, k))"
  by pat_completeness auto
termination
  by (relation "measure (\<lambda>(h, cfg, filePath, content, lines, i, k, todos). length lines - i)") auto

declare parseTodos_loop.simps [simp del]

definition parseEnhancedTodosInFile ::
  "'d Host \<Rightarrow> ParserConfig \<Rightarrow> string \<Rightarrow> string \<Rightarrow> jserror + 'd EnhancedTodoItem list" where
  \<comment> \<open>the parse entry point, on the path of the file and its content\<close>
  "parseEnhancedTodosInFile h cfg filePath content =
     map_sum id fst (parseTodos_loop h cfg filePath content (split_lines content) 0 0 [])"

section \<open>TaskSuitabilityAnalyzer\<close>

record TaskBreakdownSuggestion =
  bs_title :: string
  bs_priority :: TaskPriority
  bs_subtasks :: "string list"
  bs_estimatedTime :: int
  reasoning :: string

definition show_int :: "int \<Rightarrow> string" where
  \<comment> \<open>an integer inside a template literal\<close>
  "show_int n = (if n < 0 then ''-'' @ show_nat (nat (- n)) else show_nat (nat n))"

definition complexityKeywords :: "string list" where
  "complexityKeywords =
     [''research'', ''analyze'', ''design'', ''implement'', ''test'', ''deploy'',
      ''multiple'', ''various'', ''several'', ''comprehensive'', ''complete'',
      ''system'', ''platform'', ''architecture'', ''infrastructure'']"

definition isTooComplexForSingleTask :: "'d EnhancedTodoItem \<Rightarrow> bool" where
  "isTooComplexForSingleTask task =
     (if subtaskCount task > 10 then True
      else
        (let content = toLowerCase (title task @ '' '' @ description task)
         in length (filter (\<lambda>keyword. includes_str content keyword) complexityKeywords) \<ge> 3))"

definition max_list :: "int list \<Rightarrow> int" where
  \<comment> \<open>\<open>Math.max(...xs)\<close> on a list that is not empty\<close>
  "max_list xs = foldl max (hd xs) (tl xs)"

definition min_list :: "int list \<Rightarrow> int" where
  \<comment> \<open>\<open>Math.min(...xs)\<close> on a list that is not empty\<close>
  "min_list xs = foldl min (hd xs) (tl xs)"

definition hasInconsistentSubtaskComplexity :: "'d EnhancedTodoItem \<Rightarrow> bool" where
  "hasInconsistentSubtaskComplexity task =
     (if length (subtasks task) < 3 then False
      else
        (let complexityScores = map complexity (subtasks task)
         in max_list complexityScores - min_list complexityScores > 3))"

definition estimateTaskTime :: "'d EnhancedTodoItem \<Rightarrow> int" where
  "estimateTaskTime task =
     (if length (subtasks task) = 0 then 30
      else foldl (\<lambda>total subtask. total + complexity subtask * 10) 0 (subtasks task))"

definition exceedsTimeAllocationLimits :: "'d EnhancedTodoItem \<Rightarrow> bool" where
  "exceedsTimeAllocationLimits task =
     (let allocation = timePerTask (PRIORITY_TIME_RATIOS (priority task));
          estimated = estimateTaskTime task
      in (of_int estimated :: real) > of_int allocation * 1.5)"

definition getRecommendedAction :: "TaskSuitabilityIssue list \<Rightarrow> RecommendedAction" where
  "getRecommendedAction iss =
     (let highSeverityIssues = filter (\<lambda>i. severity i = HIGH) iss in
      if length highSeverityIssues > 0 then required
      else if length iss > 0 then suggested
      else none)"

definition issue_too_complex :: TaskSuitabilityIssue where
  "issue_too_complex =
     \<lparr>issue_type = TOO_COMPLEX, severity = HIGH,
      message = ''Task appears too complex for a single priority assignment'',
      suggestion = ''Break into smaller, more manageable subtasks''\<rparr>"

definition issue_inconsistent :: TaskSuitabilityIssue where
  "issue_inconsistent =
     \<lparr>issue_type = INCONSISTENT_COMPLEXITY, severity = MEDIUM,
      message = ''Subtasks vary greatly in complexity'',
      suggestion = ''Group similar complexity subtasks or split complex ones''\<rparr>"

definition issue_time_mismatch :: TaskSuitabilityIssue where
  "issue_time_mismatch =
     \<lparr>issue_type = TIME_MISMATCH, severity = HIGH,
      message = ''Task time requirements don'' @ [CHR 0x27] @ ''t match priority allocation'',
      suggestion = ''Adjust subtasks to fit priority time blocks''\<rparr>"

definition analyzeTaskSuitability :: "'d EnhancedTodoItem \<Rightarrow> TaskSuitabilityResult" where
  "analyzeTaskSuitability task =
     (let i1 = (if isTooComplexForSingleTask task then [issue_too_complex] else []);
          i2 = (if hasInconsistentSubtaskComplexity task then i1 @ [issue_inconsistent] else i1);
          i3 = (if exceedsTimeAllocationLimits task then i2 @ [issue_time_mismatch] else i2)
      in \<lparr>isProblematic = (length i3 > 0), issues = i3,
          recommendedAction = getRecommendedAction i3\<rparr>)"

definition categorizeSubtask :: "string \<Rightarrow> string" where
  "categorizeSubtask ttl =
     (let lowerTitle = toLowerCase ttl in
      if list_ex (includes_str lowerTitle)
           [''design'', ''wireframe'', ''mockup'', ''layout'', ''ui'', ''ux'', ''visual'']
      then ''Design''
      else if list_ex (includes_str lowerTitle)
           [''implement'', ''code'', ''develop'', ''build'', ''create'', ''program'']
      then ''Implementation''
      else if list_ex (includes_str lowerTitle)
           [''test'', ''verify'', ''check'', ''validate'', ''qa'', ''debug'']
      then ''Testing''
      else if list_ex (includes_str lowerTitle)
           [''research'', ''analyze'', ''investigate'', ''study'', ''explore'']
      then ''Research''
      else if list_ex (includes_str lowerTitle)
           [''document'', ''write'', ''update'', ''record'', ''note'']
      then ''Documentation''
      else if list_ex (includes_str lowerTitle)
           [''plan'', ''organize'', ''schedule'', ''prepare'', ''setup'']
      then ''Planning''
      else if list_ex (includes_str lowerTitle)
           [''deploy'', ''release'', ''publish'', ''launch'', ''install'']
      then ''Deployment''
      else ''General'')"

definition group_push :: "(string \<times> SubTask list) list \<Rightarrow> SubTask \<Rightarrow> (string \<times> SubTask list) list" where
  \<comment> \<open>one step of the \<open>forEach\<close>; the \<open>Map\<close> keeps its keys in the order of insertion\<close>
  "group_push groups subtask =
     (let type = categorizeSubtask (st_title subtask);
          groups' = (if map_of groups type = None then groups @ [(type, [])] else groups)
      in map (\<lambda>(k, members). if k = type then (k, members @ [subtask]) else (k, members)) groups')"

definition groupSubtasksByType :: "SubTask list \<Rightarrow> (string \<times> SubTask list) list" where
  "groupSubtasksByType subs = foldl group_push [] subs"

definition suggestPriorityForGroup :: "SubTask list \<Rightarrow> TaskPriority" where
  \<comment> \<open>the average of an empty list is \<open>NaN\<close>, below which every comparison is false\<close>
  "suggestPriorityForGroup subs =
     (let count = length subs;
          total = foldl (\<lambda>sum st. sum + complexity st) 0 subs;
          avg_ge = (\<lambda>b::real. count > 0 \<and> of_int total / of_nat count \<ge> b)
      in if avg_ge 4 \<or> count \<ge> 6 then A
         else if avg_ge 3 \<or> count \<ge> 4 then B
         else if avg_ge 2 \<or> count \<ge> 2 then C
         else D)"

definition group_suggestion :: "'d EnhancedTodoItem \<Rightarrow> string \<times> SubTask list \<Rightarrow> TaskBreakdownSuggestion" where
  \<comment> \<open>the suggestion pushed in the loop of \<open>suggestBreakdown\<close>\<close>
  "group_suggestion task g =
     (let groupType = fst g; subs = snd g;
          suggestedPriority = suggestPriorityForGroup subs
      in \<lparr>bs_title = title task @ '' - '' @ groupType,
          bs_priority = suggestedPriority,
          bs_subtasks = map st_title subs,
          bs_estimatedTime = timePerTask (PRIORITY_TIME_RATIOS suggestedPriority),
          reasoning = ''Grouped '' @ show_nat (length subs) @ '' '' @ toLowerCase groupType @ '' tasks''\<rparr>)"

definition suggestComplexityBasedBreakdown :: "'d EnhancedTodoItem \<Rightarrow> TaskBreakdownSuggestion list" where
  "suggestComplexityBasedBreakdown task =
     (let highComplexity = filter (\<lambda>st. complexity st \<ge> 4) (subtasks task);
          mediumComplexity = filter (\<lambda>st. complexity st \<ge> 2 \<and> complexity st < 4) (subtasks task);
          lowComplexity = filter (\<lambda>st. complexity st < 2) (subtasks task);
          s1 = (if length highComplexity > 0 then
                  [\<lparr>bs_title = title task @ '' - Complex Tasks'',
                    bs_priority = A,
                    bs_subtasks = map st_title highComplexity,
                    bs_estimatedTime = 30,
                    reasoning = show_nat (length highComplexity)
                      @ '' high-complexity tasks requiring focused attention''\<rparr>]
                else []);
          s2 = (if length mediumComplexity > 0 then
                  (let p = (if length mediumComplexity \<ge> 4 then B else C) in
                   s1 @ [\<lparr>bs_title = title task @ '' - Standard Tasks'',
                          bs_priority = p,
                          bs_subtasks = map st_title mediumComplexity,
                          bs_estimatedTime = timePerTask (PRIORITY_TIME_RATIOS p),
                          reasoning = show_nat (length mediumComplexity)
                            @ '' medium-complexity tasks''\<rparr>])
                else s1);
          s3 = (if length lowComplexity > 0 then
                  s2 @ [\<lparr>bs_title = title task @ '' - Quick Tasks'',
                         bs_priority = C,
                         bs_subtasks = map st_title lowComplexity,
                         bs_estimatedTime = 10,
                         reasoning = show_nat (length lowComplexity)
                           @ '' simple tasks that can be done quickly''\<rparr>]
                else s2)
      in s3)"

definition suggestBreakdown :: "'d EnhancedTodoItem \<Rightarrow> TaskBreakdownSuggestion list" where
  "suggestBreakdown task =
     (let groupedSubtasks = groupSubtasksByType (subtasks task);
          suggestions = map (group_suggestion task)
                          (filter (\<lambda>g. length (snd g) \<ge> 2) groupedSubtasks)
      in if length suggestions = 0 \<and> length (subtasks task) > 6
         then suggestions @ suggestComplexityBasedBreakdown task
         else suggestions)"

definition autoFixSimpleIssues :: "'d EnhancedTodoItem \<Rightarrow> (bool \<times> string list) \<times> 'd EnhancedTodoItem" where
  \<comment> \<open>the result \<open>{fixed, changes}\<close>, and the record after the call\<close>
  "autoFixSimpleIssues task =
     (let correctPriority = assignPriorityBySubtaskCount (subtaskCount task);
          mismatch = (priority task \<noteq> correctPriority \<and> isAutoPriority task);
          task1 = (if mismatch then updatePriority task correctPriority False else task);
          changes1 = (if mismatch
                      then [''Updated priority from '' @ priority_name (priority task1)
                              @ '' to '' @ priority_name correctPriority]
                      else []);
          estimated = estimateTaskTime task1;
          off = (\<bar>estimatedTime task1 - estimated\<bar> > 10);
          task2 = (if off then task1\<lparr>estimatedTime := estimated\<rparr> else task1);
          changes2 = (if off
                      then changes1 @ [''Updated estimated time to '' @ show_int estimated @ '' minutes'']
                      else changes1)
      in ((mismatch \<or> off, changes2), task2))"

section \<open>The claims, read literally\<close>

text \<open>
  Definitions that follow the words of the specification where they differ from the
  source; each is compared below with the function of the source.
\<close>

definition spec_isTodoLine :: "string \<Rightarrow> bool" where
  \<comment> \<open>optional leading white space, a bullet, one space, a checkbox holding a space,
      \<open>x\<close> or \<open>X\<close>\<close>
  "spec_isTodoLine line =
     (case dropWhile is_space line of
        b # s # l # c # r # _ \<Rightarrow>
          (b = CHR ''-'' \<or> b = CHR ''*'') \<and> s = CHR '' '' \<and> l = CHR ''[''
          \<and> (c = CHR '' '' \<or> c = CHR ''x'' \<or> c = CHR ''X'') \<and> r = CHR '']''
      | _ \<Rightarrow> False)"

definition indent :: "string \<Rightarrow> nat" where
  "indent line = length (takeWhile is_space line)"

definition spec_nested :: "string \<Rightarrow> string \<Rightarrow> bool" where
  \<comment> \<open>indented relative to the task line, with the same bullet and checkbox syntax\<close>
  "spec_nested taskLine line = (indent taskLine < indent line \<and> isTodoLine line)"

definition spec_parseSubtasks :: "string \<Rightarrow> nat \<Rightarrow> string list" where
  \<comment> \<open>the forward scan from the line after the task line at index \<open>i\<close>\<close>
  "spec_parseSubtasks content i =
     (let lines = split_lines content in
      map trim (filter (spec_nested (lines ! i))
        (takeWhile (\<lambda>l. spec_nested (lines ! i) l \<or> isBlankLine l) (drop (Suc i) lines))))"

definition match_positions :: "(string \<Rightarrow> 'a option) \<Rightarrow> string \<Rightarrow> nat list" where
  \<comment> \<open>the positions of the line at which the pattern matches, in increasing order\<close>
  "match_positions m line = filter (\<lambda>i. m (drop i line) \<noteq> None) [0..<Suc (length line)]"

definition spec_extractManualPriority :: "string \<Rightarrow> TaskPriority option" where
  \<comment> \<open>the tag of either form whose match is leftmost in the line\<close>
  "spec_extractManualPriority line =
     (case match_positions
             (\<lambda>s. case priorityTagAt s of Some l \<Rightarrow> Some l | None \<Rightarrow> simplePriorityAt s) line of
        [] \<Rightarrow> None
      | i # _ \<Rightarrow>
          (case priorityTagAt (drop i line) of
             Some l \<Rightarrow> priority_of_letter l
           | None \<Rightarrow>
               (case simplePriorityAt (drop i line) of
                  Some l \<Rightarrow> priority_of_letter l
                | None \<Rightarrow> None)))"

section \<open>Example inputs\<close>

definition vacation_doc :: string where
  "vacation_doc = join [newline]
     [''- [ ] Plan vacation'',
      ''  - [ ] Book flights'',
      ''  - [ ] Reserve hotel'',
      ''  - [ ] Plan itinerary'',
      ''  - [ ] Research visa requirements'']"

definition quiet_host :: "nat Host" where
  \<comment> \<open>a host for documents in which no line carries a date: the pattern of the date
      tag compiles and matches nowhere, no text is a date, and the clock stands at 1000\<close>
  "quiet_host =
     \<lparr>regexpMatch = (\<lambda>pattern content. Inr NoMatch), fromISO = (\<lambda>text. None),
      startOfDay = (\<lambda>d. d), hasSameDay = (\<lambda>d e. d = e), ofMillis = (\<lambda>ms. ms),
      clock = (\<lambda>k. 1000)\<rparr>"

definition vacation_task :: "nat EnhancedTodoItem" where
  \<comment> \<open>the record of the first line of the document\<close>
  "vacation_task = buildTodoItem 1000 1000 ''- [ ] Plan vacation'' ''Trips.md'' 0 vacation_doc"

definition siblings_doc :: string where
  "siblings_doc = join [newline] [''  - [ ] Pack bags'', ''  - [ ] Lock door'']"

definition override_line :: string where
  "override_line = ''- [ ] Pay rent #A #priority/B''"

definition override_task :: "nat EnhancedTodoItem" where
  "override_task = buildTodoItem 1000 1000 override_line ''Bills.md'' 0 override_line"

section \<open>The example document, evaluated\<close>

lemma vacation_lines:
  "split_lines vacation_doc =
     [''- [ ] Plan vacation'', ''  - [ ] Book flights'', ''  - [ ] Reserve hotel'',
      ''  - [ ] Plan itinerary'', ''  - [ ] Research visa requirements'']"
  by code_simp

lemma vacation_parseSubtasks:
  "parseSubtasks vacation_doc 0 =
     [''- [ ] Book flights'', ''- [ ] Reserve hotel'', ''- [ ] Plan itinerary'',
      ''- [ ] Research visa requirements'']"
  by code_simp

lemma vacation_complexities:
  "calculateSubtaskComplexity ''- [ ] Book flights'' = 1"
  "calculateSubtaskComplexity ''- [ ] Reserve hotel'' = 1"
  "calculateSubtaskComplexity ''- [ ] Plan itinerary'' = 1"
  "calculateSubtaskComplexity ''- [ ] Research visa requirements'' = 3"
  by code_simp+

lemma vacation_titles:
  "trim (strip_checkbox_prefix ''- [ ] Book flights'') = ''Book flights''"
  "trim (strip_checkbox_prefix ''- [ ] Reserve hotel'') = ''Reserve hotel''"
  "trim (strip_checkbox_prefix ''- [ ] Plan itinerary'') = ''Plan itinerary''"
  "trim (strip_checkbox_prefix ''- [ ] Research visa requirements'') = ''Research visa requirements''"
  by code_simp+

lemma vacation_done:
  "includes_str ''- [ ] Book flights'' ''[x]'' = False"
  "includes_str ''- [ ] Book flights'' ''[X]'' = False"
  "includes_str ''- [ ] Reserve hotel'' ''[x]'' = False"
  "includes_str ''- [ ] Reserve hotel'' ''[X]'' = False"
  "includes_str ''- [ ] Plan itinerary'' ''[x]'' = False"
  "includes_str ''- [ ] Plan itinerary'' ''[X]'' = False"
  "includes_str ''- [ ] Research visa requirements'' ''[x]'' = False"
  "includes_str ''- [ ] Research visa requirements'' ''[X]'' = False"
  by code_simp+

lemma vacation_subtasks:
  "parseSubtasksWithComplexity vacation_doc 0 =
     [\<lparr>st_id = ''subtask_0_0'', st_title = ''Book flights'', st_isCompleted = False,
       st_parentTaskId = [], complexity = 1\<rparr>,
      \<lparr>st_id = ''subtask_0_1'', st_title = ''Reserve hotel'', st_isCompleted = False,
       st_parentTaskId = [], complexity = 1\<rparr>,
      \<lparr>st_id = ''subtask_0_2'', st_title = ''Plan itinerary'', st_isCompleted = False,
       st_parentTaskId = [], complexity = 1\<rparr>,
      \<lparr>st_id = ''subtask_0_3'', st_title = ''Research visa requirements'', st_isCompleted = False,
       st_parentTaskId = [], complexity = 3\<rparr>]"
  unfolding parseSubtasksWithComplexity_def vacation_parseSubtasks
  by (simp add: vacation_complexities vacation_titles vacation_done show_nat_def to_base.simps digit36_def del: includes_str.simps)

lemma vacation_no_override: "extractManualPriority ''- [ ] Plan vacation'' = None"
  by code_simp

lemma vacation_task_fields:
  "subtasks vacation_task = map (\<lambda>st. st\<lparr>st_parentTaskId := id_todo vacation_task\<rparr>) (parseSubtasksWithComplexity vacation_doc 0)"
  "subtaskCount vacation_task = 4" "priority vacation_task = B" "isAutoPriority vacation_task"
  "allocatedTime vacation_task = 30" "estimatedTime vacation_task = 30"
  by (simp_all add: vacation_task_def buildTodoItem_def Let_def new_EnhancedTodoItem_def vacation_subtasks
     assignPriorityBySubtaskCount_def AUTO_PRIORITY_THRESHOLDS_def calculateAllocatedTime_def
     vacation_no_override)

lemma vacation_task_subtask_ids:
  "map st_id (subtasks vacation_task) = [''subtask_0_0'', ''subtask_0_1'', ''subtask_0_2'', ''subtask_0_3'']"
  "map complexity (subtasks vacation_task) = [1, 1, 1, 3]"
  by (simp_all add: vacation_task_fields vacation_subtasks)

lemma list_ex_map: "(\<And>x. P x = P' (f x)) \<Longrightarrow> list_ex P xs = list_ex (\<lambda>y. P' y) (map f xs)"
  by (induction xs) auto

lemma vacation_estimate: "estimateTaskTime vacation_task = 60"
  by (simp add: estimateTaskTime_def vacation_task_fields vacation_subtasks)

section \<open>Priority classification\<close>

text \<open>
  C1. For every subtask count \<open>n\<close> the tier assigned by \<open>assignPriorityBySubtaskCount\<close>
  is monotonic (non-decreasing) in \<open>n\<close> for the tier ordering \<open>D < C < B < A\<close>; with the
  thresholds of the constants table (A at 6, B at 4, C at 2) a count of 5 gives tier B
  and a count of 6 gives tier A.
\<close>

theorem assignPriority_monotonic:
  "(n \<le> m \<longrightarrow>
      tier_rank (assignPriorityBySubtaskCount n) \<le> tier_rank (assignPriorityBySubtaskCount m))
   \<and> assignPriorityBySubtaskCount 5 = B
   \<and> assignPriorityBySubtaskCount 6 = A"
  by (simp add: assignPriorityBySubtaskCount_def AUTO_PRIORITY_THRESHOLDS_def tier_rank_def)

theorem assignPriority_monotonic_witness:
  "(3::nat) \<le> 7
   \<and> tier_rank (assignPriorityBySubtaskCount 3) < tier_rank (assignPriorityBySubtaskCount 7)
   \<and> assignPriorityBySubtaskCount 3 = C \<and> assignPriorityBySubtaskCount 7 = A"
  using assignPriority_monotonic [of 3 7]
  by (simp add: assignPriorityBySubtaskCount_def AUTO_PRIORITY_THRESHOLDS_def tier_rank_def)

section \<open>Suitability analysis\<close>

lemma estimate_sum:
  "foldl (\<lambda>total subtask. total + complexity subtask * 10) a xs
     = a + (\<Sum>s\<leftarrow>xs. complexity s * 10)"
  by (induction xs arbitrary: a) auto

lemma filter_high_empty:
  "filter (\<lambda>i. severity i = HIGH) xs = [] \<longleftrightarrow> \<not> list_ex (\<lambda>i. severity i = HIGH) xs"
  by (induction xs) auto

lemma getRecommendedAction_cases:
  "getRecommendedAction iss =
     (if list_ex (\<lambda>i. severity i = HIGH) iss then required
      else if iss \<noteq> [] then suggested else none)"
  using filter_high_empty [of iss] by (simp add: getRecommendedAction_def Let_def)

text \<open>
  C6. The analysis reports a \<open>TIME_MISMATCH\<close> issue exactly when the estimated time (30
  for a task without subtasks, else the sum over the subtasks of complexity times 10)
  strictly exceeds 1.5 times the time allocated to the task's current tier; such an
  issue has severity \<open>HIGH\<close>. The recommended action is \<open>required\<close> when an issue of
  severity \<open>HIGH\<close> is present, \<open>suggested\<close> when there are issues but none is
  \<open>HIGH\<close>, and \<open>none\<close> when there is no issue; this holds of the result of the
  analysis and of \<open>getRecommendedAction\<close> on any list of issues.
\<close>

theorem time_mismatch_and_action:
  "(list_ex (\<lambda>i. issue_type i = TIME_MISMATCH) (issues (analyzeTaskSuitability t))
      \<longleftrightarrow> real_of_int (if subtasks t = [] then 30 else (\<Sum>s\<leftarrow>subtasks t. complexity s * 10))
            > 1.5 * real_of_int (calculateAllocatedTime (priority t)))
   \<and> list_all (\<lambda>i. issue_type i = TIME_MISMATCH \<longrightarrow> severity i = HIGH)
        (issues (analyzeTaskSuitability t))
   \<and> recommendedAction (analyzeTaskSuitability t) =
        (if list_ex (\<lambda>i. severity i = HIGH) (issues (analyzeTaskSuitability t)) then required
         else if issues (analyzeTaskSuitability t) \<noteq> [] then suggested
         else none)
   \<and> getRecommendedAction iss =
        (if list_ex (\<lambda>i. severity i = HIGH) iss then required
         else if iss \<noteq> [] then suggested
         else none)
   \<and> (isProblematic (analyzeTaskSuitability t) \<longleftrightarrow> issues (analyzeTaskSuitability t) \<noteq> [])"
proof -
  have alloc: "timePerTask (PRIORITY_TIME_RATIOS p) = calculateAllocatedTime p" for p
    by (cases p) (simp_all add: calculateAllocatedTime_def)
  have est: "estimateTaskTime t = (if subtasks t = [] then 30 else (\<Sum>s\<leftarrow>subtasks t. complexity s * 10))"
    by (simp add: estimateTaskTime_def estimate_sum)
  have a: "list_ex (\<lambda>i. issue_type i = TIME_MISMATCH) (issues (analyzeTaskSuitability t))
      \<longleftrightarrow> exceedsTimeAllocationLimits t"
    by (simp add: analyzeTaskSuitability_def Let_def issue_too_complex_def issue_inconsistent_def
        issue_time_mismatch_def)
  have b: "exceedsTimeAllocationLimits t \<longleftrightarrow>
      real_of_int (if subtasks t = [] then 30 else (\<Sum>s\<leftarrow>subtasks t. complexity s * 10))
            > 1.5 * real_of_int (calculateAllocatedTime (priority t))"
    unfolding exceedsTimeAllocationLimits_def Let_def alloc est by (simp add: mult.commute)
  have c: "list_all (\<lambda>i. issue_type i = TIME_MISMATCH \<longrightarrow> severity i = HIGH)
        (issues (analyzeTaskSuitability t))"
    by (simp add: analyzeTaskSuitability_def Let_def issue_too_complex_def issue_inconsistent_def
        issue_time_mismatch_def)
  have d: "recommendedAction (analyzeTaskSuitability t) = getRecommendedAction (issues (analyzeTaskSuitability t))"
    by (simp add: analyzeTaskSuitability_def Let_def)
  have e: "isProblematic (analyzeTaskSuitability t) \<longleftrightarrow> issues (analyzeTaskSuitability t) \<noteq> []"
    by (simp add: analyzeTaskSuitability_def Let_def)
  show ?thesis
    using a b c e unfolding d getRecommendedAction_cases by blast
qed

theorem time_mismatch_and_action_witness:
  "list_ex (\<lambda>i. issue_type i = TIME_MISMATCH) (issues (analyzeTaskSuitability vacation_task))
   \<and> real_of_int (\<Sum>s\<leftarrow>subtasks vacation_task. complexity s * 10) = 60
   \<and> 1.5 * real_of_int (calculateAllocatedTime (priority vacation_task)) = 45
   \<and> recommendedAction (analyzeTaskSuitability vacation_task) = required"
proof -
  have s: "subtasks vacation_task \<noteq> []"
    using vacation_task_subtask_ids(1) by auto
  have sum: "(\<Sum>s\<leftarrow>subtasks vacation_task. complexity s * 10) = 60"
    by (simp add: vacation_task_fields vacation_subtasks)
  have alloc: "calculateAllocatedTime (priority vacation_task) = 30"
    by (simp add: vacation_task_fields calculateAllocatedTime_def)
  from time_mismatch_and_action [of vacation_task "[]"] s sum alloc
  have ex: "list_ex (\<lambda>i. issue_type i = TIME_MISMATCH) (issues (analyzeTaskSuitability vacation_task))"
    and all: "list_all (\<lambda>i. issue_type i = TIME_MISMATCH \<longrightarrow> severity i = HIGH)
        (issues (analyzeTaskSuitability vacation_task))"
    and act: "recommendedAction (analyzeTaskSuitability vacation_task) =
        (if list_ex (\<lambda>i. severity i = HIGH) (issues (analyzeTaskSuitability vacation_task)) then required
         else if issues (analyzeTaskSuitability vacation_task) \<noteq> [] then suggested
         else none)"
    by simp_all
  from ex all have "list_ex (\<lambda>i. severity i = HIGH) (issues (analyzeTaskSuitability vacation_task))"
    by (auto simp: list_ex_iff list_all_iff)
  with act have "recommendedAction (analyzeTaskSuitability vacation_task) = required"
    by simp
  with ex sum alloc show ?thesis by simp
qed

section \<open>Auto-fix\<close>

text \<open>
  C8. On a manually overridden task (\<open>isAutoPriority\<close> false) \<open>autoFixSimpleIssues\<close>
  never changes the tier, the override flag or the time allocated to the tier; when in
  addition the stored estimate differs from the analyzer's estimate by at most 10
  minutes, it returns \<open>fixed = false\<close> with no change listed and leaves the whole record
  as it was.
\<close>

theorem autoFix_manual_override:
  "\<not> isAutoPriority t \<longrightarrow>
     priority (snd (autoFixSimpleIssues t)) = priority t
     \<and> isAutoPriority (snd (autoFixSimpleIssues t)) = isAutoPriority t
     \<and> allocatedTime (snd (autoFixSimpleIssues t)) = allocatedTime t
     \<and> remainingTime (snd (autoFixSimpleIssues t)) = remainingTime t
     \<and> (\<bar>estimatedTime t - estimateTaskTime t\<bar> \<le> 10 \<longrightarrow>
          autoFixSimpleIssues t = ((False, []), t))"
  by (simp add: autoFixSimpleIssues_def Let_def)

theorem autoFix_manual_override_witness:
  "\<not> isAutoPriority (vacation_task\<lparr>isAutoPriority := False, estimatedTime := 55\<rparr>)
   \<and> \<bar>estimatedTime (vacation_task\<lparr>isAutoPriority := False, estimatedTime := 55\<rparr>)
        - estimateTaskTime (vacation_task\<lparr>isAutoPriority := False, estimatedTime := 55\<rparr>)\<bar> \<le> 10
   \<and> autoFixSimpleIssues (vacation_task\<lparr>isAutoPriority := False, estimatedTime := 55\<rparr>)
       = ((False, []), vacation_task\<lparr>isAutoPriority := False, estimatedTime := 55\<rparr>)"
proof -
  let ?t = "vacation_task\<lparr>isAutoPriority := False, estimatedTime := 55\<rparr>"
  have "estimateTaskTime ?t = estimateTaskTime vacation_task"
    by (simp add: estimateTaskTime_def)
  then have e: "estimateTaskTime ?t = 60"
    by (simp add: vacation_estimate)
  have h1: "\<not> isAutoPriority ?t" by simp
  have h2: "\<bar>estimatedTime ?t - estimateTaskTime ?t\<bar> \<le> 10"
    unfolding e by simp
  from autoFix_manual_override [of ?t] h1 h2
  have "autoFixSimpleIssues ?t = ((False, []), ?t)" by blast
  with h1 h2 show ?thesis by blast
qed

section \<open>Removing a subtask\<close>

lemma findIndex_None: "findIndex P xs = None \<longleftrightarrow> \<not> list_ex P xs"
  by (induction xs) auto

lemma findIndex_Some:
  "findIndex P xs = Some i \<Longrightarrow>
     i < length xs \<and> P (xs ! i) \<and> \<not> list_ex P (take i xs)"
proof (induction xs arbitrary: i)
  case Nil
  then show ?case by simp
next
  case (Cons x xs)
  show ?case
  proof (cases "P x")
    case True
    with Cons.prems show ?thesis by simp
  next
    case False
    with Cons.prems obtain j where j: "findIndex P xs = Some j" "i = Suc j"
      by auto
    from Cons.IH [OF j(1)] False j(2) show ?thesis by simp
  qed
qed

text \<open>
  C10. When no subtask of the record has the given id, \<open>removeSubtask\<close> returns false
  and leaves the record unchanged. When some subtask has it, \<open>removeSubtask\<close> returns
  true, removes the first subtask with that id and no other, and \<open>subtaskCount\<close> is
  again the length of the subtask sequence.
\<close>

theorem removeSubtask_first_match:
  "(\<not> list_ex (\<lambda>st. st_id st = sid) (subtasks t) \<longrightarrow> removeSubtask t sid = (False, t))
   \<and> (list_ex (\<lambda>st. st_id st = sid) (subtasks t) \<longrightarrow>
        (\<exists>pre st post.
           subtasks t = pre @ st # post \<and> st_id st = sid
           \<and> \<not> list_ex (\<lambda>s. st_id s = sid) pre
           \<and> removeSubtask t sid = (True, t\<lparr>subtasks := pre @ post, subtaskCount := length (pre @ post)\<rparr>)
           \<and> subtaskCount (snd (removeSubtask t sid)) = length (subtasks (snd (removeSubtask t sid)))))"
proof (intro conjI impI)
  assume "\<not> list_ex (\<lambda>st. st_id st = sid) (subtasks t)"
  then have "findIndex (\<lambda>st. st_id st = sid) (subtasks t) = None"
    by (simp add: findIndex_None)
  then show "removeSubtask t sid = (False, t)"
    by (simp add: removeSubtask_def)
next
  let ?P = "\<lambda>st. st_id st = sid"
  assume "list_ex ?P (subtasks t)"
  then obtain i where i: "findIndex ?P (subtasks t) = Some i"
    using findIndex_None [of ?P "subtasks t"] by (cases "findIndex ?P (subtasks t)") auto
  from findIndex_Some [OF i]
  have lt: "i < length (subtasks t)" and hit: "?P (subtasks t ! i)"
    and first: "\<not> list_ex ?P (take i (subtasks t))"
    by simp_all
  have split: "subtasks t = take i (subtasks t) @ (subtasks t ! i) # drop (Suc i) (subtasks t)"
    using lt by (simp add: id_take_nth_drop [symmetric])
  have res: "removeSubtask t sid =
      (True, t\<lparr>subtasks := take i (subtasks t) @ drop (Suc i) (subtasks t),
               subtaskCount := length (take i (subtasks t) @ drop (Suc i) (subtasks t))\<rparr>)"
    using i by (simp add: removeSubtask_def Let_def)
  show "\<exists>pre st post.
           subtasks t = pre @ st # post \<and> st_id st = sid
           \<and> \<not> list_ex (\<lambda>s. st_id s = sid) pre
           \<and> removeSubtask t sid = (True, t\<lparr>subtasks := pre @ post, subtaskCount := length (pre @ post)\<rparr>)
           \<and> subtaskCount (snd (removeSubtask t sid)) = length (subtasks (snd (removeSubtask t sid)))"
    apply (rule exI [of _ "take i (subtasks t)"])
    apply (rule exI [of _ "subtasks t ! i"])
    apply (rule exI [of _ "drop (Suc i) (subtasks t)"])
    using split hit first res by simp
qed

theorem removeSubtask_first_match_witness:
  "\<not> list_ex (\<lambda>st. st_id st = ''subtask_9_9'') (subtasks vacation_task)
   \<and> removeSubtask vacation_task ''subtask_9_9'' = (False, vacation_task)
   \<and> list_ex (\<lambda>st. st_id st = ''subtask_0_1'') (subtasks vacation_task)
   \<and> fst (removeSubtask vacation_task ''subtask_0_1'')
   \<and> subtaskCount (snd (removeSubtask vacation_task ''subtask_0_1'')) = 3"
proof -
  have no: "\<not> list_ex (\<lambda>st. st_id st = ''subtask_9_9'') (subtasks vacation_task)"
    using vacation_task_subtask_ids(1)
    by (subst list_ex_map [where f = st_id and P' = "\<lambda>y. y = ''subtask_9_9''"]) simp_all
  have yes: "list_ex (\<lambda>st. st_id st = ''subtask_0_1'') (subtasks vacation_task)"
    using vacation_task_subtask_ids(1)
    by (subst list_ex_map [where f = st_id and P' = "\<lambda>y. y = ''subtask_0_1''"]) simp_all
  have "length (map st_id (subtasks vacation_task)) = 4"
    unfolding vacation_task_subtask_ids(1) by simp
  then have len: "length (subtasks vacation_task) = 4"
    by simp
  from removeSubtask_first_match [of "''subtask_9_9''" vacation_task] no
  have r1: "removeSubtask vacation_task ''subtask_9_9'' = (False, vacation_task)"
    by blast
  from removeSubtask_first_match [of "''subtask_0_1''" vacation_task] yes
  obtain pre st post where
    "subtasks vacation_task = pre @ st # post"
    "removeSubtask vacation_task ''subtask_0_1'' =
       (True, vacation_task\<lparr>subtasks := pre @ post, subtaskCount := length (pre @ post)\<rparr>)"
    by blast
  with len have r2: "fst (removeSubtask vacation_task ''subtask_0_1'')"
    "subtaskCount (snd (removeSubtask vacation_task ''subtask_0_1'')) = 3"
    by simp_all
  from no yes r1 r2 show ?thesis by blast
qed

section \<open>Task lines\<close>

lemma not_space_marks:
  "\<not> is_space (CHR ''-'')" "\<not> is_space (CHR ''*'')" "\<not> is_space (CHR ''['')"
  by (simp_all add: is_space_def)

lemma dropWhile_spaces_append:
  "list_all is_space ws \<Longrightarrow> \<not> is_space b \<Longrightarrow> dropWhile is_space (ws @ b # r) = b # r"
  by (induction ws) auto

lemma isTodoLine_intro:
  assumes "list_all is_space ws" "b = CHR ''-'' \<or> b = CHR ''*''" "sp \<noteq> []"
    "list_all is_space sp" "c = CHR '' '' \<or> c = CHR ''x''"
  shows "isTodoLine (ws @ b # sp @ CHR ''['' # c # CHR '']'' # rest)"
proof -
  from assms(2) have nb: "\<not> is_space b"
    using not_space_marks by auto
  have d1: "dropWhile is_space (ws @ b # sp @ CHR ''['' # c # CHR '']'' # rest)
      = b # sp @ CHR ''['' # c # CHR '']'' # rest"
    using assms(1) nb by (rule dropWhile_spaces_append)
  have d2: "dropWhile is_space (sp @ CHR ''['' # c # CHR '']'' # rest) = CHR ''['' # c # CHR '']'' # rest"
    using assms(4) not_space_marks(3) by (rule dropWhile_spaces_append)
  from assms(3,4) obtain s sp' where sp: "sp = s # sp'" "is_space s"
    by (cases sp) auto
  show ?thesis
    unfolding isTodoLine_def d1 bullet_checkbox_at_def
    using assms(2,5) d2 sp by (auto simp: checkbox_at_def)
qed

lemma takeWhile_spaces: "list_all is_space (takeWhile is_space s)"
  by (induction s) auto

lemma isTodoLine_elim:
  assumes "isTodoLine line"
  shows "\<exists>ws b sp c rest.
           line = ws @ b # sp @ CHR ''['' # c # CHR '']'' # rest
           \<and> list_all is_space ws \<and> (b = CHR ''-'' \<or> b = CHR ''*'')
           \<and> sp \<noteq> [] \<and> list_all is_space sp \<and> (c = CHR '' '' \<or> c = CHR ''x'')"
proof -
  from assms obtain b r' where r: "dropWhile is_space line = b # r'"
    and b: "b = CHR ''-'' \<or> b = CHR ''*''"
    and s: "case r' of [] \<Rightarrow> False | s # _ \<Rightarrow> is_space s"
    and box: "checkbox_at (dropWhile is_space r')"
    by (auto simp: isTodoLine_def bullet_checkbox_at_def split: list.splits)
  from box obtain c rest where c: "dropWhile is_space r' = CHR ''['' # c # CHR '']'' # rest"
    and cc: "c = CHR '' '' \<or> c = CHR ''x''"
    by (auto simp: checkbox_at_def split: list.splits)
  have l1: "line = takeWhile is_space line @ b # r'"
    using r takeWhile_dropWhile_id [of is_space line] by simp
  have l2: "r' = takeWhile is_space r' @ CHR ''['' # c # CHR '']'' # rest"
    using c takeWhile_dropWhile_id [of is_space r'] by simp
  from s have ne: "takeWhile is_space r' \<noteq> []"
    by (cases r') auto
  have "line = takeWhile is_space line @ b # takeWhile is_space r' @ CHR ''['' # c # CHR '']'' # rest"
    using l1 l2 by simp
  with b cc ne takeWhile_spaces show ?thesis
    by blast
qed

text \<open>
  C3 (as amended). A line that consists of optional leading white space, a bullet \<open>-\<close>
  or \<open>*\<close>, one or more white-space characters (not exactly one space) and a checkbox
  \<open>[ ]\<close> or \<open>[x]\<close>, followed by anything, is recognised as a task line; and every line
  recognised as a task line has that form, with a space, an \<open>x\<close> or an \<open>X\<close> in the
  checkbox.
\<close>

theorem isTodoLine_pattern:
  "(list_all is_space ws \<and> (b = CHR ''-'' \<or> b = CHR ''*'') \<and> sp \<noteq> [] \<and> list_all is_space sp
      \<and> (c = CHR '' '' \<or> c = CHR ''x'')
      \<longrightarrow> isTodoLine (ws @ b # sp @ CHR ''['' # c # CHR '']'' # rest))
   \<and> (isTodoLine line \<longrightarrow>
        (\<exists>ws b sp c rest.
           line = ws @ b # sp @ CHR ''['' # c # CHR '']'' # rest
           \<and> list_all is_space ws \<and> (b = CHR ''-'' \<or> b = CHR ''*'')
           \<and> sp \<noteq> [] \<and> list_all is_space sp
           \<and> (c = CHR '' '' \<or> c = CHR ''x'' \<or> c = CHR ''X'')))"
proof (intro conjI impI)
  assume "list_all is_space ws \<and> (b = CHR ''-'' \<or> b = CHR ''*'') \<and> sp \<noteq> [] \<and> list_all is_space sp
      \<and> (c = CHR '' '' \<or> c = CHR ''x'')"
  then show "isTodoLine (ws @ b # sp @ CHR ''['' # c # CHR '']'' # rest)"
    using isTodoLine_intro by blast
next
  assume "isTodoLine line"
  from isTodoLine_elim [OF this] show "\<exists>ws b sp c rest.
           line = ws @ b # sp @ CHR ''['' # c # CHR '']'' # rest
           \<and> list_all is_space ws \<and> (b = CHR ''-'' \<or> b = CHR ''*'')
           \<and> sp \<noteq> [] \<and> list_all is_space sp
           \<and> (c = CHR '' '' \<or> c = CHR ''x'' \<or> c = CHR ''X'')"
    by blast
qed

theorem isTodoLine_pattern_witness:
  "list_all is_space ''  '' \<and> list_all is_space [CHR 0x09, CHR '' '']
   \<and> isTodoLine (''  '' @ CHR ''*'' # [CHR 0x09, CHR '' ''] @ CHR ''['' # CHR ''x'' # CHR '']'' # '' Water plants'')
   \<and> isTodoLine ''- [ ] Plan vacation''"
proof -
  have a: "list_all is_space ''  ''" "list_all is_space [CHR 0x09, CHR '' '']"
    by (simp_all add: is_space_def)
  from isTodoLine_pattern [of "''  ''" "CHR ''*''" "[CHR 0x09, CHR '' '']" "CHR ''x''" "'' Water plants''"] a
  have b: "isTodoLine (''  '' @ CHR ''*'' # [CHR 0x09, CHR '' ''] @ CHR ''['' # CHR ''x'' # CHR '']'' # '' Water plants'')"
    by simp
  from isTodoLine_pattern [of "[]" "CHR ''-''" "'' ''" "CHR '' ''" "'' Plan vacation''"]
  have c: "isTodoLine ''- [ ] Plan vacation''"
    by (simp add: is_space_def)
  from a b c show ?thesis by blast
qed

theorem isTodoLine_counterexample:
  "isTodoLine ''-  [ ] Call home'' \<and> \<not> spec_isTodoLine ''-  [ ] Call home''
   \<and> spec_isTodoLine ''- [X] title'' \<and> \<not> isTodoLine ''- [X] title''"
  by code_simp


section \<open>The scan for nested subtasks\<close>

lemma parseSubtasks_loop_eq:
  "parseSubtasks_loop lines i found =
     found @ map trim (filter isSubtaskLine
       (takeWhile (\<lambda>l. isSubtaskLine l \<or> isBlankLine l) (drop i lines)))"
proof (induction lines i found rule: parseSubtasks_loop.induct)
  case (1 lines i found)
  show ?case
  proof (cases "i < length lines")
    case False
    then show ?thesis by (simp add: parseSubtasks_loop.simps [of lines i found])
  next
    case True
    then have d: "drop i lines = lines ! i # drop (Suc i) lines"
      by (simp add: Cons_nth_drop_Suc)
    show ?thesis
    proof (cases "isSubtaskLine (lines ! i)")
      case sub: True
      from "1.IH"(1) [OF True refl sub] True sub d show ?thesis
        by (simp add: parseSubtasks_loop.simps [of lines i found])
    next
      case nosub: False
      show ?thesis
      proof (cases "isBlankLine (lines ! i)")
        case blank: True
        from "1.IH"(2) [OF True refl nosub blank] True nosub blank d show ?thesis
          by (simp add: parseSubtasks_loop.simps [of lines i found])
      next
        case False
        with True nosub d show ?thesis
          by (simp add: parseSubtasks_loop.simps [of lines i found])
      qed
    qed
  qed
qed

text \<open>
  C4 (as amended). The scan from the line after the task line takes the lines up to the
  first line that is neither a subtask line nor blank, drops the blank ones and keeps
  the others, trimmed, in the order of the document. A subtask line is a line that
  starts with white space and has the syntax of a task line: its indentation is not
  compared with that of the task line.
\<close>

theorem parseSubtasks_scan:
  "parseSubtasks content i =
     map trim (filter isSubtaskLine
       (takeWhile (\<lambda>l. isSubtaskLine l \<or> isBlankLine l) (drop (Suc i) (split_lines content))))
   \<and> isSubtaskLine l = ((case l of [] \<Rightarrow> False | c # _ \<Rightarrow> is_space c) \<and> isTodoLine l)"
  by (simp add: parseSubtasks_def parseSubtasks_loop_eq isSubtaskLine_def isTodoLine_def)

theorem parseSubtasks_scan_witness:
  "map trim (filter isSubtaskLine
       (takeWhile (\<lambda>l. isSubtaskLine l \<or> isBlankLine l) (drop (Suc 0) (split_lines vacation_doc))))
   = [''- [ ] Book flights'', ''- [ ] Reserve hotel'', ''- [ ] Plan itinerary'',
      ''- [ ] Research visa requirements'']"
  using parseSubtasks_scan [of vacation_doc 0] vacation_parseSubtasks by simp

theorem parseSubtasks_counterexample:
  "isTodoLine (split_lines siblings_doc ! 0)
   \<and> parseSubtasks siblings_doc 0 = [''- [ ] Lock door'']
   \<and> spec_parseSubtasks siblings_doc 0 = []"
  by code_simp

section \<open>Manual priority override\<close>

lemma match_positions_Cons:
  "match_positions m (c # cs) =
     (if m (c # cs) \<noteq> None then [0] else []) @ map Suc (match_positions m cs)"
proof -
  have "[0..<Suc (Suc (length cs))] = 0 # [Suc 0..<Suc (Suc (length cs))]"
    by (rule upt_conv_Cons) simp
  also have "[Suc 0..<Suc (Suc (length cs))] = map Suc [0..<Suc (length cs)]"
    by (rule map_Suc_upt [symmetric])
  finally have "[0..<Suc (length (c # cs))] = 0 # map Suc [0..<Suc (length cs)]"
    unfolding length_Cons .
  then show ?thesis
    unfolding match_positions_def by (simp add: filter_map comp_def del: upt_Suc)
qed

lemma first_match_positions:
  "first_match m s = (case match_positions m s of [] \<Rightarrow> None | i # _ \<Rightarrow> m (drop i s))"
proof (induction s)
  case Nil
  show ?case by (simp add: match_positions_def)
next
  case (Cons c cs)
  show ?case
  proof (cases "m (c # cs)")
    case None
    with Cons show ?thesis
      by (simp add: match_positions_Cons split: list.splits)
  next
    case (Some r)
    then show ?thesis
      by (simp add: match_positions_Cons)
  qed
qed

lemma priority_letter_cases:
  "priority_letter l \<Longrightarrow> l \<in> set ''abcdABCD''"
  unfolding priority_letter_def to_lower_def upper_chars_def lower_chars_def
  by (simp split: if_splits)

lemma priority_of_letter_values:
  "priority_of_letter (CHR ''a'') = Some A" "priority_of_letter (CHR ''A'') = Some A"
  "priority_of_letter (CHR ''b'') = Some B" "priority_of_letter (CHR ''B'') = Some B"
  "priority_of_letter (CHR ''c'') = Some C" "priority_of_letter (CHR ''C'') = Some C"
  "priority_of_letter (CHR ''d'') = Some D" "priority_of_letter (CHR ''D'') = Some D"
  by code_simp+

lemma priority_of_letter_total:
  "priority_letter l \<Longrightarrow> \<exists>p. priority_of_letter l = Some p"
  using priority_of_letter_values by (auto dest!: priority_letter_cases)

lemma priorityTagAt_Some:
  "priorityTagAt s = Some l \<Longrightarrow> priority_letter l \<and> 10 < length s \<and> s ! 10 = l"
  by (auto simp: priorityTagAt_def nth_via_drop split: if_splits list.splits)
    (metis drop_eq_Nil2 list.distinct(1) not_le_imp_less)

lemma simplePriorityAt_Some:
  "simplePriorityAt s = Some l \<Longrightarrow> priority_letter l \<and> 1 < length s \<and> s ! 1 = l"
  by (auto simp: simplePriorityAt_def split: if_splits list.splits)

lemma match_positions_hit:
  "match_positions m s = i # rest \<Longrightarrow> \<exists>r. m (drop i s) = Some r"
proof -
  assume "match_positions m s = i # rest"
  then have "i \<in> set (match_positions m s)" by simp
  then show ?thesis by (auto simp: match_positions_def simp del: upt_Suc)
qed

lemma extractManualPriority_positions:
  "extractManualPriority line =
     (case match_positions priorityTagAt line of
        i # _ \<Rightarrow> priority_of_letter (line ! (i + 10))
      | [] \<Rightarrow>
          (case match_positions simplePriorityAt line of
             i # _ \<Rightarrow> priority_of_letter (line ! (i + 1))
           | [] \<Rightarrow> None))"
proof (cases "match_positions priorityTagAt line")
  case (Cons i rest)
  from match_positions_hit [OF Cons] obtain l where l: "priorityTagAt (drop i line) = Some l"
    by blast
  from priorityTagAt_Some [OF l] have "i \<le> length line" "drop i line ! 10 = l"
    by auto
  then have "line ! (i + 10) = l"
    by (simp add: nth_drop)
  with Cons l show ?thesis
    by (simp add: extractManualPriority_def first_match_positions)
next
  case Nil
  show ?thesis
  proof (cases "match_positions simplePriorityAt line")
    case inner: Nil
    with Nil show ?thesis
      by (simp add: extractManualPriority_def first_match_positions)
  next
    case inner: (Cons i rest)
    from match_positions_hit [OF inner] obtain l where l: "simplePriorityAt (drop i line) = Some l"
      by blast
    from simplePriorityAt_Some [OF l] have "i \<le> length line" "drop i line ! 1 = l"
      by auto
    then have "line ! (i + 1) = l"
      by (simp add: nth_drop)
    with Nil inner l show ?thesis
      by (simp add: extractManualPriority_def first_match_positions)
  qed
qed

lemma extractManualPriority_None_iff:
  "extractManualPriority line = None \<longleftrightarrow>
     match_positions priorityTagAt line = [] \<and> match_positions simplePriorityAt line = []"
proof -
  have a: "first_match priorityTagAt line = Some l \<Longrightarrow> \<exists>p. priority_of_letter l = Some p" for l
    unfolding first_match_positions
    by (auto split: list.splits dest!: priorityTagAt_Some priority_of_letter_total)
  have b: "first_match simplePriorityAt line = Some l \<Longrightarrow> \<exists>p. priority_of_letter l = Some p" for l
    unfolding first_match_positions
    by (auto split: list.splits dest!: simplePriorityAt_Some priority_of_letter_total)
  have c: "first_match m line = None \<longleftrightarrow> match_positions m line = []" for m :: "string \<Rightarrow> char option"
    unfolding first_match_positions
    by (auto split: list.splits dest: match_positions_hit)
  show ?thesis
    unfolding extractManualPriority_def c [symmetric]
    using a b by (auto split: option.splits)
qed

lemma parsed_priority:
  assumes "parseEnhancedTodoLine h cfg line path n content k = Inr (Some t, k')"
  shows "isAutoPriority t = (extractManualPriority line = None)"
    and "priority t = (case extractManualPriority line of
                         Some p \<Rightarrow> p
                       | None \<Rightarrow> assignPriorityBySubtaskCount
                                   (length (parseSubtasksWithComplexity content n)))"
  using assms
  by (auto simp: parseEnhancedTodoLine_def buildTodoItem_def Let_def new_EnhancedTodoItem_def
        assignToDate_def split: if_splits sum.splits option.splits)

text \<open>
  C5 (as amended). When the line holds a tag \<open>#priority/<A|B|C|D>\<close> (in any case), the
  override is the letter of the leftmost such tag, wherever a bare tag \<open>#<A|B|C|D>\<close>
  stands; otherwise it is the letter of the leftmost bare tag that no word character
  follows; there is no override exactly when neither form occurs. In the parsed record
  \<open>isAutoPriority\<close> is false exactly when there is an override, and the tier of the
  override is then the tier of the record.
\<close>

theorem manual_priority_order:
  "extractManualPriority line =
     (case match_positions priorityTagAt line of
        i # _ \<Rightarrow> priority_of_letter (line ! (i + 10))
      | [] \<Rightarrow>
          (case match_positions simplePriorityAt line of
             i # _ \<Rightarrow> priority_of_letter (line ! (i + 1))
           | [] \<Rightarrow> None))
   \<and> (extractManualPriority line = None \<longleftrightarrow>
        match_positions priorityTagAt line = [] \<and> match_positions simplePriorityAt line = [])
   \<and> (parseEnhancedTodoLine h cfg line path n content k = Inr (Some t, k') \<longrightarrow>
        isAutoPriority t = (extractManualPriority line = None)
        \<and> (\<forall>p. extractManualPriority line = Some p \<longrightarrow> priority t = p))"
  using extractManualPriority_positions [of line] extractManualPriority_None_iff [of line]
    parsed_priority [of h cfg line path n content k t k']
  by simp

lemma override_line_eval:
  "match_positions priorityTagAt override_line = [18]"
  "match_positions simplePriorityAt override_line = [15]"
  "override_line ! 28 = CHR ''B''"
  "isTodoLine override_line"
  "standaloneDate False override_line = None"
  "isDailyNote ''Bills.md'' = False"
  by code_simp+

theorem manual_priority_order_witness:
  "match_positions priorityTagAt override_line = [18]
   \<and> match_positions simplePriorityAt override_line = [15]
   \<and> extractManualPriority override_line = Some B
   \<and> parseEnhancedTodoLine quiet_host default_config override_line ''Bills.md'' 0 override_line 0
       = Inr (Some override_task, 2)
   \<and> isAutoPriority override_task = False
   \<and> priority override_task = B"
proof -
  have run: "parseEnhancedTodoLine quiet_host default_config override_line ''Bills.md'' 0 override_line 0
       = Inr (Some override_task, 2)"
    by (simp add: parseEnhancedTodoLine_def extractDueDate_def quiet_host_def override_line_eval
        override_task_def)
  note inst = manual_priority_order [of override_line quiet_host default_config "''Bills.md''" 0
      override_line 0 override_task 2]
  from inst have ov: "extractManualPriority override_line = Some B"
    by (simp add: override_line_eval priority_of_letter_values)
  from inst run ov have "isAutoPriority override_task = False" "priority override_task = B"
    by simp_all
  with run ov show ?thesis
    by (simp add: override_line_eval)
qed

theorem manual_priority_counterexample:
  "extractManualPriority override_line = Some B
   \<and> spec_extractManualPriority override_line = Some A"
  by code_simp

end
